theory Spec2Isabelle
  imports Main
begin

section \<open>The S3 uploader (packages/helloao-cli/s3.ts)\<close>

subsection \<open>Files, the uploader and the S3 service\<close>

text \<open>
  A \<open>SerializedFile\<close> as \<open>S3Uploader.upload\<close> reads it: its path, its content and the
  result of \<open>file.sha256?.()\<close>, which is \<open>undefined\<close> (here \<open>None\<close>) when the file has no
  \<open>sha256\<close> function.
\<close>

record SerializedFile =
  path :: string
  content :: string
  sha256 :: "string option"

record S3Uploader =
  bucketName :: string
  keyPrefix :: string

text \<open>
  The S3 service behind \<open>this._client\<close>. An object is stored under a bucket and a key;
  \<open>HeadObject\<close> answers with the stored object's \<open>ChecksumSHA256\<close> (which may be absent) or
  raises \<open>NotFound\<close>; either request may also fail with another error (no credentials, no
  network), which \<open>send\<close> raises as it is. \<open>sent\<close> is the list of the commands the client
  was given, oldest first.
\<close>

datatype S3Error = NotFound | ServiceError string

record S3Object =
  Body :: string
  ContentType :: string
  ChecksumSHA256 :: "string option"

datatype S3Command =
    HeadObjectCommand string string
  | PutObjectCommand string string S3Object

record S3Client =
  objects :: "string \<times> string \<Rightarrow> S3Object option"
  headFault :: "string option"
  putFault :: "string option"
  sent :: "S3Command list"

definition sendHead :: "S3Client \<Rightarrow> string \<Rightarrow> string \<Rightarrow> (S3Error + S3Object) \<times> S3Client" where
  "sendHead c bucket key =
     (let c' = c\<lparr>sent := sent c @ [HeadObjectCommand bucket key]\<rparr> in
      case headFault c of
        Some e \<Rightarrow> (Inl (ServiceError e), c')
      | None \<Rightarrow>
          (case objects c (bucket, key) of
             None \<Rightarrow> (Inl NotFound, c')
           | Some ob \<Rightarrow> (Inr ob, c')))"

definition sendPut :: "S3Client \<Rightarrow> string \<Rightarrow> string \<Rightarrow> S3Object \<Rightarrow> (S3Error + unit) \<times> S3Client" where
  "sendPut c bucket key ob =
     (let c' = c\<lparr>sent := sent c @ [PutObjectCommand bucket key ob]\<rparr> in
      case putFault c of
        Some e \<Rightarrow> (Inl (ServiceError e), c')
      | None \<Rightarrow> (Inr (), c'\<lparr>objects := (objects c)((bucket, key) \<mapsto> ob)\<rparr>))"

subsection \<open>\<open>S3Uploader.upload\<close>\<close>

text \<open>
  \<open>upload\<close> compares the hash with the stored checksum by
  \<open>hash.localeCompare(checksum, undefined, {sensitivity: 'base'}) === 0\<close>. The comparison is
  made by the collator of the JavaScript host for its default locale, which is no part of
  the repository: at this sensitivity it takes \<open>a\<close> and \<open>A\<close> for equal in most locales, and
  it also passes over accents and characters the collation ignores. The model takes the
  relation "compares as equal at base sensitivity" as the parameter \<open>baseEqual\<close> of \<open>upload\<close>
  and assumes nothing of it.
\<close>

type_synonym Collator = "string \<Rightarrow> string \<Rightarrow> bool"

text \<open>JavaScript's truthiness of \<open>string | undefined\<close>: a non-empty string.\<close>

definition truthy :: "string option \<Rightarrow> bool" where
  "truthy h \<longleftrightarrow> (case h of None \<Rightarrow> False | Some s \<Rightarrow> s \<noteq> [])"

definition startsWith :: "string \<Rightarrow> string \<Rightarrow> bool" where
  "startsWith s p \<longleftrightarrow> take (length p) s = p"

text \<open>The key under which \<open>upload\<close> stores a file: the first two statements of \<open>upload\<close>.\<close>

definition uploadKey :: "S3Uploader \<Rightarrow> SerializedFile \<Rightarrow> string" where
  "uploadKey u file =
     (let p = (if startsWith (path file) ''/'' then drop 1 (path file) else path file)
      in if keyPrefix u \<noteq> [] then keyPrefix u @ ''/'' @ p else p)"

text \<open>
  The end of \<open>upload\<close>: the \<open>PutObjectCommand\<close> with the file's content, the content type
  \<open>application/json\<close> and the hash is sent, and \<open>upload\<close> returns \<open>true\<close> unless \<open>send\<close>
  raises.
\<close>

definition putFile :: "S3Uploader \<Rightarrow> S3Client \<Rightarrow> SerializedFile \<Rightarrow> (S3Error + bool) \<times> S3Client" where
  "putFile u c file =
     (case sendPut c (bucketName u) (uploadKey u file)
             \<lparr>Body = content file, ContentType = ''application/json'',
              ChecksumSHA256 = sha256 file\<rparr> of
        (Inl e, c') \<Rightarrow> (Inl e, c')
      | (Inr _, c') \<Rightarrow> (Inr True, c'))"

text \<open>
  \<open>upload\<close> returns its result, or the error it raises, together with the client after the
  commands it has sent. \<open>HeadObject\<close> is sent only when the file has a hash or \<open>overwrite\<close> is
  false; of the errors \<open>HeadObject\<close> raises, \<open>NotFound\<close> alone is caught.
\<close>

definition upload :: "Collator \<Rightarrow> S3Uploader \<Rightarrow> S3Client \<Rightarrow> SerializedFile \<Rightarrow> bool \<Rightarrow> (S3Error + bool) \<times> S3Client" where
  "upload baseEqual u c file overwrite =
     (let key = uploadKey u file; hash = sha256 file in
      if truthy hash \<or> \<not> overwrite then
        (case sendHead c (bucketName u) key of
           (Inr existingFile, c') \<Rightarrow>
             if truthy hash \<and>
                baseEqual (case hash of Some h \<Rightarrow> h | None \<Rightarrow> [])
                  (case ChecksumSHA256 existingFile of Some s \<Rightarrow> s | None \<Rightarrow> [])
             then (Inr False, c')
             else if \<not> overwrite then (Inr False, c')
             else putFile u c' file
         | (Inl NotFound, c') \<Rightarrow> putFile u c' file
         | (Inl (ServiceError e), c') \<Rightarrow> (Inl (ServiceError e), c'))
      else putFile u c file)"

subsection \<open>\<open>parseS3Url\<close> and \<open>getHttpUrl\<close>\<close>

text \<open>
  The regular expression of \<open>parseS3Url\<close> is
  \<^verbatim>\<open>^s3:\/\/([a-z0-9.\-]+)(\/[^${}]*)?$\<close>.
  Its first group is a non-empty run of the characters of \<open>bucketChars\<close>; its second group,
  when it takes part in the match, is a slash followed by any characters but \<open>$\<close>, \<open>{\<close> and
  \<open>}\<close>.
\<close>

definition bucketChars :: "char list" where
  "bucketChars = ''abcdefghijklmnopqrstuvwxyz0123456789.-''"

definition bucketChar :: "char \<Rightarrow> bool" where
  "bucketChar c \<longleftrightarrow> c \<in> set bucketChars"

definition keyChar :: "char \<Rightarrow> bool" where
  "keyChar c \<longleftrightarrow> c \<notin> set ''${}''"

text \<open>
  \<open>url.match(regex)\<close>: the two groups of the match, or \<open>None\<close> when the string does not
  match. The first group is greedy and no character of it can start the second group, so the
  match, when there is one, takes the longest run of bucket characters.
\<close>

definition matchS3Url :: "string \<Rightarrow> (string \<times> string option) option" where
  "matchS3Url url =
     (if startsWith url ''s3://'' then
        (let rest = drop 5 url;
             g1 = takeWhile bucketChar rest;
             g2 = dropWhile bucketChar rest
         in if g1 = [] then None
            else if g2 = [] then Some (g1, None)
            else if startsWith g2 ''/'' \<and> list_all keyChar (drop 1 g2) then Some (g1, Some g2)
            else None)
      else None)"

record S3Location =
  locBucketName :: string
  objectKey :: string

definition parseS3Url :: "string \<Rightarrow> S3Location option" where
  "parseS3Url url =
     (case matchS3Url url of
        Some (g1, g2) \<Rightarrow>
          (let key = (case g2 of Some k \<Rightarrow> k | None \<Rightarrow> []);
               key' = (if startsWith key ''/'' then drop 1 key else key)
           in Some \<lparr>locBucketName = g1, objectKey = key'\<rparr>)
      | None \<Rightarrow> None)"

definition getHttpUrl :: "string \<Rightarrow> string option" where
  "getHttpUrl s3Url =
     (case parseS3Url s3Url of
        None \<Rightarrow> None
      | Some parsed \<Rightarrow>
          (if objectKey parsed \<noteq> [] then
             Some (''https://'' @ locBucketName parsed @ ''.s3.amazonaws.com/'' @ objectKey parsed)
           else Some (''https://'' @ locBucketName parsed @ ''.s3.amazonaws.com'')))"

section \<open>The data model (src/generation/common-types.ts)\<close>

text \<open>
  \<open>InputTranslationMetadata\<close>. The interface declares every field but \<open>shortName\<close> as
  required; an object at run time can still lack a field the interface requires, and the
  metadata of the repository's generator test (\<open>translation1\<close>) has neither \<open>englishName\<close>
  nor \<open>direction\<close>. These three fields are therefore options here. The field \<open>id\<close> is
  written \<open>translationId\<close>.
\<close>

datatype TextDirection = ltr | rtl

record InputTranslationMetadata =
  translationId :: string
  name :: string
  englishName :: "string option"
  website :: string
  licenseUrl :: string
  shortName :: "string option"
  language :: string
  direction :: "TextDirection option"

text \<open>
  \<open>FormattedText\<close>, with its optional \<open>poem\<close> level and \<open>wordsOfJesus\<close> flag; the field
  \<open>text\<close> is written \<open>formattedText\<close>.
\<close>

record FormattedText =
  formattedText :: string
  poem :: "nat option"
  wordsOfJesus :: "bool option"

text \<open>
  The elements of a verse's \<open>content\<close>: a string, a \<open>FormattedText\<close>, an \<open>InlineHeading\<close>, an
  \<open>InlineLineBreak\<close> or a \<open>VerseFootnoteReference\<close>; those of a Hebrew subtitle are the
  first, the second and the last of these.
\<close>

datatype VerseContent =
    VerseText string
  | VerseFormatted FormattedText
  | InlineHeading string
  | InlineLineBreak
  | VerseFootnoteReference nat

datatype SubtitleContent =
    SubtitleText string
  | SubtitleFormatted FormattedText
  | SubtitleFootnoteReference nat

text \<open>\<open>ChapterContent\<close>, told apart in the source by its \<open>type\<close> field.\<close>

datatype ChapterContent =
    ChapterHeading "string list"
  | ChapterLineBreak
  | ChapterHebrewSubtitle "SubtitleContent list"
  | ChapterVerse nat "VerseContent list"

text \<open>
  \<open>ChapterFootnote\<close>; the field \<open>text\<close> is written \<open>noteText\<close>, the \<open>reference\<close> is a pair of a
  chapter and a verse number, and a \<open>caller\<close> of \<open>null\<close> is \<open>None\<close>.
\<close>

record ChapterFootnote =
  noteId :: nat
  noteText :: string
  reference :: "(nat \<times> nat) option"
  caller :: "string option"

record ChapterData =
  number :: nat
  chapterContent :: "ChapterContent list"
  footnotes :: "ChapterFootnote list"

section \<open>The generator\<close>

text \<open>
  The generator itself (\<open>generate\<close> and \<open>bookIdMap\<close> of \<open>./generator\<close>, and the USFM parser it
  calls) is not among the source files; what the repository holds of it is its test
  (the file that imports \<open>generate\<close> from \<open>./generator\<close>) and the command line option
  \<open>--use-common-name\<close>. The definitions of this section follow section 4.4 of the
  specification, and the test where it fixes what the specification leaves open or states
  otherwise.
\<close>

subsection \<open>The book catalog and parsed books\<close>

text \<open>
  Modelled from the spec: the book catalog (\<open>bookIdMap\<close>, missing from the sources), a table
  from canonical book identifiers to the common name, the canonical ordering index and the
  alternate spellings of the identifier. The catalog is a parameter of the generator.
\<close>

record CatalogBook =
  canonicalId :: string
  bookCommonName :: string
  bookOrder :: nat
  aliases :: "string list"

type_synonym BookCatalog = "CatalogBook list"

text \<open>
  Modelled from the spec: the catalog lookup (missing from the sources). A raw identifier
  names a book when it is the book's canonical identifier or one of its aliases, whatever
  the case of its letters; \<open>toLowerChar\<close> folds the letters \<open>A\<close> to \<open>Z\<close>.
\<close>

definition toLowerChar :: "char \<Rightarrow> char" where
  "toLowerChar c =
     (case map_of (zip ''ABCDEFGHIJKLMNOPQRSTUVWXYZ'' ''abcdefghijklmnopqrstuvwxyz'') c of
        Some l \<Rightarrow> l
      | None \<Rightarrow> c)"

definition lookupBook :: "BookCatalog \<Rightarrow> string \<Rightarrow> CatalogBook option" where
  "lookupBook catalog raw =
     find (\<lambda>b. map toLowerChar raw \<in> set (map (map toLowerChar) (canonicalId b # aliases b)))
       catalog"

text \<open>
  Modelled from the spec: a parsed book, the generator's input (the parser's output type is
  missing from the sources): the metadata of its translation, the book identifier as the
  source markup gives it, and its chapters, each a \<open>ChapterData\<close>.
\<close>

record ParsedBook =
  translation :: InputTranslationMetadata
  bookIdentifier :: string
  chapters :: "ChapterData list"

subsection \<open>Output documents\<close>

text \<open>
  The entry of a translation in the output: the metadata it was given, with
  \<open>availableFormats\<close> and \<open>listOfBooksApiLink\<close> added (\<open>expectedTranslation\<close> of the test).
\<close>

record AvailableTranslation = InputTranslationMetadata +
  availableFormats :: "string list"
  listOfBooksApiLink :: string

text \<open>
  The entry of a book in the output, with the four fields the test expects; the field \<open>id\<close>
  is written \<open>bookId\<close>.
\<close>

record TranslationBook =
  bookId :: string
  commonName :: string
  numberOfChapters :: nat
  firstChapterApiLink :: string

text \<open>
  The three kinds of document the test expects: \<open>{translations}\<close>, \<open>{translation, books}\<close> and
  \<open>{translation, book, nextChapterLink, chapter}\<close>, where \<open>nextChapterLink\<close> is a path or
  \<open>null\<close>. The chapter documents of the test have no \<open>previousChapterLink\<close>.
\<close>

datatype OutputFileContent =
    AvailableTranslationsDoc "AvailableTranslation list"
  | TranslationBooksDoc AvailableTranslation "TranslationBook list"
  | ChapterDoc AvailableTranslation TranslationBook "string option" ChapterData

text \<open>\<open>OutputFile\<close> of common-types.ts; an absent \<open>mergable\<close> is \<open>False\<close>.\<close>

record OutputFile =
  outPath :: string
  outContent :: OutputFileContent
  mergable :: bool

datatype GenerateError = UnknownBookError string

subsection \<open>Paths\<close>

text \<open>The decimal numeral of a chapter number, as a template literal prints it.\<close>

fun showNat :: "nat \<Rightarrow> string" where
  "showNat n =
     (if n < 10 then [''0123456789'' ! n]
      else showNat (n div 10) @ [''0123456789'' ! (n mod 10)])"

declare showNat.simps [simp del]

text \<open>
  Modelled from the spec: the document path scheme of section 6 (the code that builds the
  paths is missing from the sources; the test shows the three forms for \<open>bsb\<close>).
\<close>

definition availableTranslationsPath :: string where
  "availableTranslationsPath = ''/bible/available_translations''"

definition booksPath :: "string \<Rightarrow> string" where
  "booksPath tid = ''/bible/'' @ tid @ ''/books''"

definition chapterPath :: "string \<Rightarrow> string \<Rightarrow> nat \<Rightarrow> string" where
  "chapterPath tid bookSegment n = ''/bible/'' @ tid @ ''/'' @ bookSegment @ ''/'' @ showNat n @ ''.json''"

text \<open>
  Modelled from the spec: the book segment of a path is the common name or the canonical
  identifier of the book, by the one option \<open>--use-common-name\<close> of a run.
\<close>

definition bookSegment :: "bool \<Rightarrow> CatalogBook \<Rightarrow> string" where
  "bookSegment useCommonName b = (if useCommonName then bookCommonName b else canonicalId b)"

subsection \<open>\<open>generate\<close>\<close>

text \<open>
  Modelled from the spec: the entry of a translation (the generator is missing from the
  sources): its metadata plus the derived \<open>availableFormats\<close>, which the test expects to be
  \<open>['json']\<close>, and the link to its book index.
\<close>

definition availableTranslation :: "InputTranslationMetadata \<Rightarrow> AvailableTranslation" where
  "availableTranslation t =
     InputTranslationMetadata.extend t
       (AvailableTranslation.fields [''json''] (booksPath (translationId t)))"

text \<open>
  Modelled from the spec: every book identifier is resolved in the catalog first; an
  unknown one is fatal and the run yields no document.
\<close>

fun resolveBooks :: "BookCatalog \<Rightarrow> ParsedBook list \<Rightarrow> GenerateError + (CatalogBook \<times> ParsedBook) list" where
  "resolveBooks catalog [] = Inr []"
| "resolveBooks catalog (pb # pbs) =
     (case lookupBook catalog (bookIdentifier pb) of
        None \<Rightarrow> Inl (UnknownBookError (bookIdentifier pb))
      | Some b \<Rightarrow>
          (case resolveBooks catalog pbs of
             Inl e \<Rightarrow> Inl e
           | Inr rest \<Rightarrow> Inr ((b, pb) # rest)))"

text \<open>
  Modelled from the spec: every distinct translation present, by translation id, in the
  order of first appearance.
\<close>

fun distinctTranslations :: "string list \<Rightarrow> ParsedBook list \<Rightarrow> InputTranslationMetadata list" where
  "distinctTranslations seen [] = []"
| "distinctTranslations seen (pb # pbs) =
     (if translationId (translation pb) \<in> set seen then distinctTranslations seen pbs
      else translation pb # distinctTranslations (translationId (translation pb) # seen) pbs)"

text \<open>
  Modelled from the spec: the books of one translation in canonical order, which is the
  order of the catalog's ordering index and not the order of the input.
\<close>

definition booksOf :: "string \<Rightarrow> (CatalogBook \<times> ParsedBook) list \<Rightarrow> (CatalogBook \<times> ParsedBook) list" where
  "booksOf tid resolved =
     sort_key (\<lambda>(b, pb). bookOrder b)
       (filter (\<lambda>(b, pb). translationId (translation pb) = tid) resolved)"

text \<open>
  Modelled from the spec: the entry of a book, with its identifier, its common name, the
  number of its chapters and the link to its first chapter document (chapter 1 for a book
  without chapters).
\<close>

definition translationBook :: "bool \<Rightarrow> string \<Rightarrow> CatalogBook \<times> ParsedBook \<Rightarrow> TranslationBook" where
  "translationBook useCommonName tid bp =
     (case bp of (b, pb) \<Rightarrow>
        \<lparr>bookId = canonicalId b,
         commonName = bookCommonName b,
         numberOfChapters = length (chapters pb),
         firstChapterApiLink =
           chapterPath tid (bookSegment useCommonName b)
             (case chapters pb of [] \<Rightarrow> 1 | c # _ \<Rightarrow> number c)\<rparr>)"

text \<open>
  Modelled from the spec, with the test: the documents of the chapters of one book, from
  the \<open>i\<close>-th on. Each carries the translation, the book, the chapter as parsed, and
  \<open>nextChapterLink\<close>: the path of the chapter that follows in the same book, and \<open>null\<close>
  for the last chapter of the book. The specification lets the last chapter of a book link
  to the first chapter of the canonically next book; the test expects \<open>null\<close> for chapter 1
  of Genesis although Exodus follows, as does the specification's own account of that
  scenario, and the model follows the test.
\<close>

fun chapterFiles :: "bool \<Rightarrow> AvailableTranslation \<Rightarrow> CatalogBook \<Rightarrow> TranslationBook \<Rightarrow> ChapterData list \<Rightarrow> OutputFile list" where
  "chapterFiles useCommonName t b book [] = []"
| "chapterFiles useCommonName t b book (c # cs) =
     \<lparr>outPath = chapterPath (translationId t) (bookSegment useCommonName b) (number c),
      outContent =
        ChapterDoc t book
          (case cs of
             [] \<Rightarrow> None
           | c' # _ \<Rightarrow> Some (chapterPath (translationId t) (bookSegment useCommonName b) (number c')))
          c,
      mergable = False\<rparr>
     # chapterFiles useCommonName t b book cs"

definition bookFiles :: "bool \<Rightarrow> AvailableTranslation \<Rightarrow> CatalogBook \<times> ParsedBook \<Rightarrow> OutputFile list" where
  "bookFiles useCommonName t bp =
     chapterFiles useCommonName t (fst bp) (translationBook useCommonName (translationId t) bp)
       (chapters (snd bp))"

text \<open>
  Modelled from the spec: the documents of one translation: its book index, listing its
  books in canonical order, then the chapter documents of each book.
\<close>

definition translationFiles :: "bool \<Rightarrow> (CatalogBook \<times> ParsedBook) list \<Rightarrow> InputTranslationMetadata \<Rightarrow> OutputFile list" where
  "translationFiles useCommonName resolved t =
     (let books = booksOf (translationId t) resolved;
          entry = availableTranslation t
      in \<lparr>outPath = booksPath (translationId t),
          outContent =
            TranslationBooksDoc entry (map (translationBook useCommonName (translationId t)) books),
          mergable = False\<rparr>
         # concat (map (bookFiles useCommonName entry) books))"

text \<open>
  Modelled from the spec: \<open>generate\<close> (missing from the sources). One mergeable document
  lists every distinct translation present; then come the documents of each translation. A
  run with a fatal condition returns the error and no documents.
\<close>

definition generate :: "BookCatalog \<Rightarrow> bool \<Rightarrow> ParsedBook list \<Rightarrow> GenerateError + OutputFile list" where
  "generate catalog useCommonName files =
     (case resolveBooks catalog files of
        Inl e \<Rightarrow> Inl e
      | Inr resolved \<Rightarrow>
          (let translations = distinctTranslations [] files in
           Inr (\<lparr>outPath = availableTranslationsPath,
                 outContent = AvailableTranslationsDoc (map availableTranslation translations),
                 mergable = True\<rparr>
                # concat (map (translationFiles useCommonName resolved) translations))))"

subsection \<open>The generator's test\<close>

text \<open>
  The data of the test \<open>generator() should output a file tree\<close>. \<open>translation1\<close> is the
  metadata both input files are tagged with; it has no \<open>englishName\<close> and no \<open>direction\<close>.
\<close>

definition translation1 :: InputTranslationMetadata where
  "translation1 =
     \<lparr>translationId = ''bsb'',
      name = ''Berean Standard Bible'',
      englishName = None,
      website = ''https://berean.bible'',
      licenseUrl = ''https://berean.bible/terms.htm'',
      shortName = Some ''BSB'',
      language = ''en'',
      direction = None\<rparr>"

text \<open>
  Modelled from the spec: the two parsed books of the scenario (the parser and the two USFM
  files are missing from the sources). The Genesis fragment has the heading of chapter 1,
  a reference line, which leaves nothing in the parse tree, and verses 1 and 2, each after
  a break; the Exodus fragment has its own heading and verses 1 and 2. Neither has a
  footnote.
\<close>

definition genesisChapter1 :: ChapterData where
  "genesisChapter1 =
     \<lparr>number = 1,
      chapterContent =
        [ChapterHeading [''The Creation''],
         ChapterLineBreak,
         ChapterVerse 1 [VerseText ''In the beginning God created the heavens and the earth.''],
         ChapterLineBreak,
         ChapterVerse 2 [VerseText ''Now the earth was formless and void, and darkness was over the surface of the deep. And the Spirit of God was hovering over the surface of the waters.'']],
      footnotes = []\<rparr>"

definition exodusChapter1 :: ChapterData where
  "exodusChapter1 =
     \<lparr>number = 1,
      chapterContent =
        [ChapterHeading [''The Israelites Multiply in Egypt''],
         ChapterLineBreak,
         ChapterVerse 1 [VerseText ''These are the names of the sons of Israel who went to Egypt with Jacob, each with his family:''],
         ChapterLineBreak,
         ChapterVerse 2 [VerseText ''Reuben, Simeon, Levi, and Judah;'']],
      footnotes = []\<rparr>"

definition inputFiles :: "ParsedBook list" where
  "inputFiles =
     [\<lparr>translation = translation1, bookIdentifier = ''GEN'', chapters = [genesisChapter1]\<rparr>,
      \<lparr>translation = translation1, bookIdentifier = ''EXO'', chapters = [exodusChapter1]\<rparr>]"

text \<open>\<open>expectedTranslation\<close> and the tree the test expects, path by path, in its order.\<close>

definition expectedTranslation :: AvailableTranslation where
  "expectedTranslation =
     \<lparr>translationId = ''bsb'',
      name = ''Berean Standard Bible'',
      englishName = None,
      website = ''https://berean.bible'',
      licenseUrl = ''https://berean.bible/terms.htm'',
      shortName = Some ''BSB'',
      language = ''en'',
      direction = None,
      availableFormats = [''json''],
      listOfBooksApiLink = ''/bible/bsb/books''\<rparr>"

definition expectedGenesis :: TranslationBook where
  "expectedGenesis =
     \<lparr>bookId = ''GEN'', commonName = ''Genesis'', numberOfChapters = 1,
      firstChapterApiLink = ''/bible/bsb/Genesis/1.json''\<rparr>"

definition expectedExodus :: TranslationBook where
  "expectedExodus =
     \<lparr>bookId = ''EXO'', commonName = ''Exodus'', numberOfChapters = 1,
      firstChapterApiLink = ''/bible/bsb/Exodus/1.json''\<rparr>"

definition expectedTree :: "(string \<times> OutputFileContent) list" where
  "expectedTree =
     [(''/bible/available_translations'', AvailableTranslationsDoc [expectedTranslation]),
      (''/bible/bsb/books'', TranslationBooksDoc expectedTranslation [expectedGenesis, expectedExodus]),
      (''/bible/bsb/Genesis/1.json'',
         ChapterDoc expectedTranslation expectedGenesis None
           \<lparr>number = 1,
            chapterContent =
              [ChapterHeading [''The Creation''],
               ChapterLineBreak,
               ChapterVerse 1 [VerseText ''In the beginning God created the heavens and the earth.''],
               ChapterLineBreak,
               ChapterVerse 2 [VerseText ''Now the earth was formless and void, and darkness was over the surface of the deep. And the Spirit of God was hovering over the surface of the waters.'']],
            footnotes = []\<rparr>),
      (''/bible/bsb/Exodus/1.json'',
         ChapterDoc expectedTranslation expectedExodus None
           \<lparr>number = 1,
            chapterContent =
              [ChapterHeading [''The Israelites Multiply in Egypt''],
               ChapterLineBreak,
               ChapterVerse 1 [VerseText ''These are the names of the sons of Israel who went to Egypt with Jacob, each with his family:''],
               ChapterLineBreak,
               ChapterVerse 2 [VerseText ''Reuben, Simeon, Levi, and Judah;'']],
            footnotes = []\<rparr>)]"

text \<open>
  Modelled from the spec: the two entries of the book catalog that the scenario needs;
  Genesis comes first in canonical order.
\<close>

definition scenarioCatalog :: BookCatalog where
  "scenarioCatalog =
     [\<lparr>canonicalId = ''GEN'', bookCommonName = ''Genesis'', bookOrder = 1, aliases = []\<rparr>,
      \<lparr>canonicalId = ''EXO'', bookCommonName = ''Exodus'', bookOrder = 2, aliases = []\<rparr>]"

subsection \<open>Reading the chapter links of an output\<close>

text \<open>
  The path and the \<open>nextChapterLink\<close> of every chapter document of a list of output files,
  in their order; used to state properties of the links.
\<close>

fun nextChapterLinks :: "OutputFile list \<Rightarrow> (string \<times> string option) list" where
  "nextChapterLinks [] = []"
| "nextChapterLinks (file # files) =
     (case outContent file of
        ChapterDoc t book link c \<Rightarrow> (outPath file, link) # nextChapterLinks files
      | _ \<Rightarrow> nextChapterLinks files)"

text \<open>
  The link that leads from the \<open>i\<close>-th chapter of a parsed book to the chapter after it in
  the same book: the path of that chapter's document, and \<open>null\<close> when the \<open>i\<close>-th chapter
  is the last of the book.
\<close>

definition nextInBook :: "bool \<Rightarrow> CatalogBook \<Rightarrow> ParsedBook \<Rightarrow> nat \<Rightarrow> string option" where
  "nextInBook useCommonName b pb i =
     (if Suc i < length (chapters pb)
      then Some (chapterPath (translationId (translation pb)) (bookSegment useCommonName b)
                   (number (chapters pb ! Suc i)))
      else None)"

section \<open>Properties of the S3 uploader\<close>

subsection \<open>What the service answers\<close>

lemma sendHead_found:
  "headFault c = None \<Longrightarrow> objects c (b, k) = Some ob \<Longrightarrow>
   sendHead c b k = (Inr ob, c\<lparr>sent := sent c @ [HeadObjectCommand b k]\<rparr>)"
  by (simp add: sendHead_def)

lemma sendHead_missing:
  "headFault c = None \<Longrightarrow> objects c (b, k) = None \<Longrightarrow>
   sendHead c b k = (Inl NotFound, c\<lparr>sent := sent c @ [HeadObjectCommand b k]\<rparr>)"
  by (simp add: sendHead_def)

lemma putFile_ok:
  "putFault c = None \<Longrightarrow>
   putFile u c file =
     (Inr True,
      c\<lparr>sent := sent c @ [PutObjectCommand (bucketName u) (uploadKey u file)
                \<lparr>Body = content file, ContentType = ''application/json'', ChecksumSHA256 = sha256 file\<rparr>],
        objects := (objects c)((bucketName u, uploadKey u file) \<mapsto>
                \<lparr>Body = content file, ContentType = ''application/json'', ChecksumSHA256 = sha256 file\<rparr>)\<rparr>)"
  by (simp add: putFile_def sendPut_def)

lemma putFile_fails:
  "putFault c = Some e \<Longrightarrow>
   putFile u c file =
     (Inl (ServiceError e),
      c\<lparr>sent := sent c @ [PutObjectCommand (bucketName u) (uploadKey u file)
                \<lparr>Body = content file, ContentType = ''application/json'', ChecksumSHA256 = sha256 file\<rparr>]\<rparr>)"
  by (simp add: putFile_def sendPut_def)



text \<open>
  Claim C9. First, when \<open>overwrite\<close> is false and \<open>HeadObject\<close> finds an object at the key,
  \<open>upload\<close> returns \<open>false\<close> after that one \<open>HeadObject\<close> and writes nothing; this holds
  whether or not the file has a hash and whether or not the checksums agree, so in
  particular when they do not. Second, when no object is stored at the key, so that
  \<open>HeadObject\<close> raises \<open>NotFound\<close> if it is sent at all, \<open>upload\<close> sends \<open>PutObject\<close> with the
  file's content, the content type \<open>application/json\<close> and the hash, and returns \<open>true\<close>
  once the service has stored the object, for either value of \<open>overwrite\<close>. Third, for
  completeness: if the service refuses that \<open>PutObject\<close>, its error is raised to the caller
  and nothing is stored. None of this depends on how the host compares checksums.
\<close>

theorem upload_overwrite_and_not_found:
  "(\<not> overwrite \<and> headFault c = None \<and>
      objects c (bucketName u, uploadKey u file) = Some existing \<longrightarrow>
        upload baseEqual u c file overwrite =
          (Inr False, c\<lparr>sent := sent c @ [HeadObjectCommand (bucketName u) (uploadKey u file)]\<rparr>)) \<and>
   (headFault c = None \<and> objects c (bucketName u, uploadKey u file) = None \<and> putFault c = None \<longrightarrow>
        upload baseEqual u c file overwrite =
          (Inr True,
           c\<lparr>sent := sent c @
                  (if truthy (sha256 file) \<or> \<not> overwrite
                   then [HeadObjectCommand (bucketName u) (uploadKey u file)] else []) @
                  [PutObjectCommand (bucketName u) (uploadKey u file)
                     \<lparr>Body = content file, ContentType = ''application/json'',
                      ChecksumSHA256 = sha256 file\<rparr>],
             objects := (objects c)((bucketName u, uploadKey u file) \<mapsto>
                     \<lparr>Body = content file, ContentType = ''application/json'',
                      ChecksumSHA256 = sha256 file\<rparr>)\<rparr>)) \<and>
   (headFault c = None \<and> objects c (bucketName u, uploadKey u file) = None \<and> putFault c = Some e \<longrightarrow>
        fst (upload baseEqual u c file overwrite) = Inl (ServiceError e) \<and>
        objects (snd (upload baseEqual u c file overwrite)) = objects c)"
proof (intro conjI impI)
  assume a: "\<not> overwrite \<and> headFault c = None \<and>
      objects c (bucketName u, uploadKey u file) = Some existing"
  then show "upload baseEqual u c file overwrite =
          (Inr False, c\<lparr>sent := sent c @ [HeadObjectCommand (bucketName u) (uploadKey u file)]\<rparr>)"
    by (simp add: upload_def sendHead_found)
next
  assume a: "headFault c = None \<and> objects c (bucketName u, uploadKey u file) = None \<and> putFault c = None"
  then show "upload baseEqual u c file overwrite =
          (Inr True,
           c\<lparr>sent := sent c @
                  (if truthy (sha256 file) \<or> \<not> overwrite
                   then [HeadObjectCommand (bucketName u) (uploadKey u file)] else []) @
                  [PutObjectCommand (bucketName u) (uploadKey u file)
                     \<lparr>Body = content file, ContentType = ''application/json'',
                      ChecksumSHA256 = sha256 file\<rparr>],
             objects := (objects c)((bucketName u, uploadKey u file) \<mapsto>
                     \<lparr>Body = content file, ContentType = ''application/json'',
                      ChecksumSHA256 = sha256 file\<rparr>)\<rparr>)"
    by (simp add: upload_def Let_def sendHead_missing putFile_ok)
next
  assume a: "headFault c = None \<and> objects c (bucketName u, uploadKey u file) = None \<and> putFault c = Some e"
  then show "fst (upload baseEqual u c file overwrite) = Inl (ServiceError e)"
    by (simp add: upload_def Let_def sendHead_missing putFile_fails)
  from a show "objects (snd (upload baseEqual u c file overwrite)) = objects c"
    by (simp add: upload_def Let_def sendHead_missing putFile_fails)
qed

theorem upload_overwrite_and_not_found_witness:
  "upload (=) \<lparr>bucketName = ''bucket'', keyPrefix = []\<rparr>
      \<lparr>objects = [(''bucket'', ''bible/bsb/books'') \<mapsto>
                    \<lparr>Body = ''old'', ContentType = ''application/json'', ChecksumSHA256 = None\<rparr>],
       headFault = None, putFault = None, sent = []\<rparr>
      \<lparr>path = ''/bible/bsb/books'', content = ''new'', sha256 = None\<rparr> False
   = (Inr False,
      \<lparr>objects = [(''bucket'', ''bible/bsb/books'') \<mapsto>
                    \<lparr>Body = ''old'', ContentType = ''application/json'', ChecksumSHA256 = None\<rparr>],
       headFault = None, putFault = None,
       sent = [HeadObjectCommand ''bucket'' ''bible/bsb/books'']\<rparr>) \<and>
   upload (=) \<lparr>bucketName = ''bucket'', keyPrefix = []\<rparr>
      \<lparr>objects = Map.empty, headFault = None, putFault = None, sent = []\<rparr>
      \<lparr>path = ''/bible/bsb/books'', content = ''new'', sha256 = None\<rparr> False
   = (Inr True,
      \<lparr>objects = [(''bucket'', ''bible/bsb/books'') \<mapsto>
                    \<lparr>Body = ''new'', ContentType = ''application/json'', ChecksumSHA256 = None\<rparr>],
       headFault = None, putFault = None,
       sent = [HeadObjectCommand ''bucket'' ''bible/bsb/books'',
               PutObjectCommand ''bucket'' ''bible/bsb/books''
                 \<lparr>Body = ''new'', ContentType = ''application/json'', ChecksumSHA256 = None\<rparr>]\<rparr>) \<and>
   upload (=) \<lparr>bucketName = ''bucket'', keyPrefix = []\<rparr>
      \<lparr>objects = Map.empty, headFault = None, putFault = None, sent = []\<rparr>
      \<lparr>path = ''/bible/bsb/books'', content = ''new'', sha256 = None\<rparr> True
   = (Inr True,
      \<lparr>objects = [(''bucket'', ''bible/bsb/books'') \<mapsto>
                    \<lparr>Body = ''new'', ContentType = ''application/json'', ChecksumSHA256 = None\<rparr>],
       headFault = None, putFault = None,
       sent = [PutObjectCommand ''bucket'' ''bible/bsb/books''
                 \<lparr>Body = ''new'', ContentType = ''application/json'', ChecksumSHA256 = None\<rparr>]\<rparr>)"
proof -
  let ?u = "\<lparr>bucketName = ''bucket'', keyPrefix = []\<rparr>"
  let ?old = "\<lparr>Body = ''old'', ContentType = ''application/json'', ChecksumSHA256 = None\<rparr>"
  let ?c1 = "\<lparr>objects = [(''bucket'', ''bible/bsb/books'') \<mapsto> ?old],
       headFault = None, putFault = None, sent = []\<rparr>"
  let ?c2 = "\<lparr>objects = Map.empty, headFault = None, putFault = None, sent = []\<rparr> :: S3Client"
  let ?f = "\<lparr>path = ''/bible/bsb/books'', content = ''new'', sha256 = None\<rparr>"
  have k: "uploadKey ?u ?f = ''bible/bsb/books''"
    by (simp add: uploadKey_def startsWith_def)
  have t: "\<not> truthy (sha256 ?f)" by (simp add: truthy_def)
  have a: "\<not> False \<and> headFault ?c1 = None \<and> objects ?c1 (bucketName ?u, uploadKey ?u ?f) = Some ?old"
    by (simp add: k)
  have b: "headFault ?c2 = None \<and> objects ?c2 (bucketName ?u, uploadKey ?u ?f) = None \<and>
           putFault ?c2 = None"
    by simp
  have 1: "upload (=) ?u ?c1 ?f False =
             (Inr False, ?c1\<lparr>sent := sent ?c1 @ [HeadObjectCommand (bucketName ?u) (uploadKey ?u ?f)]\<rparr>)"
    using upload_overwrite_and_not_found [of False ?c1 ?u ?f ?old "(=)"] a by blast
  have 2: "upload (=) ?u ?c2 ?f False =
          (Inr True,
           ?c2\<lparr>sent := sent ?c2 @
                  (if truthy (sha256 ?f) \<or> \<not> False
                   then [HeadObjectCommand (bucketName ?u) (uploadKey ?u ?f)] else []) @
                  [PutObjectCommand (bucketName ?u) (uploadKey ?u ?f)
                     \<lparr>Body = content ?f, ContentType = ''application/json'',
                      ChecksumSHA256 = sha256 ?f\<rparr>],
             objects := (objects ?c2)((bucketName ?u, uploadKey ?u ?f) \<mapsto>
                     \<lparr>Body = content ?f, ContentType = ''application/json'',
                      ChecksumSHA256 = sha256 ?f\<rparr>)\<rparr>)"
    using upload_overwrite_and_not_found [of False ?c2 ?u ?f _ "(=)"] b by blast
  have 3: "upload (=) ?u ?c2 ?f True =
          (Inr True,
           ?c2\<lparr>sent := sent ?c2 @
                  (if truthy (sha256 ?f) \<or> \<not> True
                   then [HeadObjectCommand (bucketName ?u) (uploadKey ?u ?f)] else []) @
                  [PutObjectCommand (bucketName ?u) (uploadKey ?u ?f)
                     \<lparr>Body = content ?f, ContentType = ''application/json'',
                      ChecksumSHA256 = sha256 ?f\<rparr>],
             objects := (objects ?c2)((bucketName ?u, uploadKey ?u ?f) \<mapsto>
                     \<lparr>Body = content ?f, ContentType = ''application/json'',
                      ChecksumSHA256 = sha256 ?f\<rparr>)\<rparr>)"
    using upload_overwrite_and_not_found [of True ?c2 ?u ?f _ "(=)"] b by blast
  show ?thesis
    unfolding 1 2 3 using t by (simp add: k)
qed

subsection \<open>The language of \<open>parseS3Url\<close>\<close>

lemma slash_not_bucketChar: "\<not> bucketChar CHR ''/''"
  by (simp add: bucketChar_def bucketChars_def)

lemma startsWith_append: "startsWith (p @ s) p"
  by (simp add: startsWith_def)

lemma startsWith_split: "startsWith s p \<Longrightarrow> s = p @ drop (length p) s"
  unfolding startsWith_def by (metis append_take_drop_id)

lemma matchS3Url_bucket_only:
  assumes "b \<noteq> []" and "list_all bucketChar b"
  shows "matchS3Url (''s3://'' @ b) = Some (b, None)"
proof -
  have "startsWith (''s3://'' @ b) ''s3://''" by (rule startsWith_append)
  moreover have tw: "takeWhile bucketChar b = b" and dw: "dropWhile bucketChar b = []"
    using assms(2) by (simp_all add: list_all_iff)
  ultimately show ?thesis using assms(1) by (simp add: matchS3Url_def tw dw)
qed

lemma matchS3Url_bucket_key:
  assumes "b \<noteq> []" and "list_all bucketChar b" and "list_all keyChar k"
  shows "matchS3Url (''s3://'' @ b @ ''/'' @ k) = Some (b, Some (''/'' @ k))"
proof -
  have s: "startsWith (''s3://'' @ b @ ''/'' @ k) ''s3://''" by (rule startsWith_append)
  have all: "\<And>x. x \<in> set b \<Longrightarrow> bucketChar x" using assms(2) by (simp add: list_all_iff)
  have t: "takeWhile bucketChar (b @ ''/'' @ k) = b"
    using takeWhile_append2 [of b bucketChar "''/'' @ k"] all slash_not_bucketChar by simp
  have d: "dropWhile bucketChar (b @ ''/'' @ k) = ''/'' @ k"
    using dropWhile_append2 [of b bucketChar "''/'' @ k"] all slash_not_bucketChar by simp
  show ?thesis using s t d assms(1,3) by (simp add: matchS3Url_def startsWith_def)
qed

lemma matchS3Url_sound:
  assumes "matchS3Url url = Some (g1, g2)"
  shows "g1 \<noteq> [] \<and> list_all bucketChar g1 \<and>
         (case g2 of
            None \<Rightarrow> url = ''s3://'' @ g1
          | Some k \<Rightarrow> \<exists>k'. k = ''/'' @ k' \<and> list_all keyChar k' \<and> url = ''s3://'' @ g1 @ ''/'' @ k')"
proof -
  from assms have sw: "startsWith url ''s3://''"
    by (auto simp: matchS3Url_def split: if_splits)
  define rest where "rest = drop 5 url"
  have len: "length ''s3://'' = 5" by simp
  have url: "url = ''s3://'' @ rest"
    using startsWith_split [OF sw] unfolding len rest_def .
  have parts: "rest = takeWhile bucketChar rest @ dropWhile bucketChar rest" by simp
  from assms sw have g1: "g1 = takeWhile bucketChar rest" and ne: "g1 \<noteq> []"
    by (auto simp: matchS3Url_def Let_def rest_def split: if_splits)
  have allb: "list_all bucketChar g1"
    unfolding g1 list_all_iff by (auto dest: set_takeWhileD)
  show ?thesis
  proof (cases g2)
    case None
    with assms sw have "dropWhile bucketChar rest = []"
      by (auto simp: matchS3Url_def Let_def rest_def split: if_splits)
    with parts g1 have "rest = g1" by simp
    with url ne allb None show ?thesis by simp
  next
    case (Some k)
    with assms sw have k: "k = dropWhile bucketChar rest" and st: "startsWith k ''/''"
      and kc: "list_all keyChar (drop 1 k)"
      by (auto simp: matchS3Url_def Let_def rest_def split: if_splits)
    have len1: "length ''/'' = 1" by simp
    have ksplit: "k = ''/'' @ drop 1 k"
      using startsWith_split [OF st] unfolding len1 .
    have "rest = g1 @ k" using parts g1 k by simp
    then have "url = ''s3://'' @ g1 @ ''/'' @ drop 1 k"
      using url ksplit by simp
    with ksplit kc have "\<exists>k'. k = ''/'' @ k' \<and> list_all keyChar k' \<and> url = ''s3://'' @ g1 @ ''/'' @ k'"
      by blast
    with ne allb Some show ?thesis by simp
  qed
qed

lemma parseS3Url_None_iff: "parseS3Url url = None \<longleftrightarrow> matchS3Url url = None"
  by (simp add: parseS3Url_def Let_def split: option.splits prod.splits)

lemma matchS3Url_None_iff:
  "matchS3Url url = None \<longleftrightarrow>
     \<not> (\<exists>b k. b \<noteq> [] \<and> list_all bucketChar b \<and> list_all keyChar k \<and>
              (url = ''s3://'' @ b \<or> url = ''s3://'' @ b @ ''/'' @ k))"
proof
  assume n: "matchS3Url url = None"
  show "\<not> (\<exists>b k. b \<noteq> [] \<and> list_all bucketChar b \<and> list_all keyChar k \<and>
              (url = ''s3://'' @ b \<or> url = ''s3://'' @ b @ ''/'' @ k))"
  proof
    assume "\<exists>b k. b \<noteq> [] \<and> list_all bucketChar b \<and> list_all keyChar k \<and>
              (url = ''s3://'' @ b \<or> url = ''s3://'' @ b @ ''/'' @ k)"
    then obtain b k where b: "b \<noteq> []" "list_all bucketChar b" and k: "list_all keyChar k"
      and u: "url = ''s3://'' @ b \<or> url = ''s3://'' @ b @ ''/'' @ k" by blast
    from u show False
    proof
      assume "url = ''s3://'' @ b"
      with matchS3Url_bucket_only [OF b] n show False by simp
    next
      assume "url = ''s3://'' @ b @ ''/'' @ k"
      with matchS3Url_bucket_key [OF b k] n show False by simp
    qed
  qed
next
  assume no: "\<not> (\<exists>b k. b \<noteq> [] \<and> list_all bucketChar b \<and> list_all keyChar k \<and>
              (url = ''s3://'' @ b \<or> url = ''s3://'' @ b @ ''/'' @ k))"
  show "matchS3Url url = None"
  proof (rule ccontr)
    assume "matchS3Url url \<noteq> None"
    then obtain g1 g2 where m: "matchS3Url url = Some (g1, g2)" by auto
    from matchS3Url_sound [OF m] have g1: "g1 \<noteq> []" "list_all bucketChar g1"
      and c: "case g2 of None \<Rightarrow> url = ''s3://'' @ g1
          | Some k \<Rightarrow> \<exists>k'. k = ''/'' @ k' \<and> list_all keyChar k' \<and> url = ''s3://'' @ g1 @ ''/'' @ k'"
      by simp_all
    show False
    proof (cases g2)
      case None
      with c have "url = ''s3://'' @ g1" by simp
      moreover have "list_all keyChar []" by simp
      ultimately show False using no g1 by blast
    next
      case (Some k)
      with c obtain k' where "list_all keyChar k'" "url = ''s3://'' @ g1 @ ''/'' @ k'" by auto
      then show False using no g1 by blast
    qed
  qed
qed

text \<open>
  Claim C10, as amended. Call a bucket name a non-empty string of lower-case letters, digits,
  dots and hyphens, and a key a string without \<open>$\<close>, \<open>{\<close> and \<open>}\<close>. For a bucket name \<open>b\<close> and a
  key \<open>k\<close>, \<open>parseS3Url\<close> returns bucket \<open>b\<close> and object key \<open>k\<close> on \<open>s3://b/k\<close>, and
  bucket \<open>b\<close> with the empty key on \<open>s3://b\<close>. It returns \<open>undefined\<close> on exactly the strings
  that are of neither shape. \<open>getHttpUrl\<close> returns \<open>undefined\<close> exactly when \<open>parseS3Url\<close> does,
  and otherwise \<open>https://<bucketName>.s3.amazonaws.com\<close>, followed by a slash and the object
  key when the key is not empty.
\<close>

theorem parseS3Url_getHttpUrl_spec:
  "(b \<noteq> [] \<and> list_all bucketChar b \<and> list_all keyChar k \<longrightarrow>
      parseS3Url (''s3://'' @ b @ ''/'' @ k) = Some \<lparr>locBucketName = b, objectKey = k\<rparr> \<and>
      parseS3Url (''s3://'' @ b) = Some \<lparr>locBucketName = b, objectKey = []\<rparr>) \<and>
   (parseS3Url url = None \<longleftrightarrow>
      \<not> (\<exists>b k. b \<noteq> [] \<and> list_all bucketChar b \<and> list_all keyChar k \<and>
              (url = ''s3://'' @ b \<or> url = ''s3://'' @ b @ ''/'' @ k))) \<and>
   (getHttpUrl url = None \<longleftrightarrow> parseS3Url url = None) \<and>
   (parseS3Url url = Some p \<longrightarrow>
      getHttpUrl url =
        Some (''https://'' @ locBucketName p @ ''.s3.amazonaws.com'' @
              (if objectKey p = [] then [] else ''/'' @ objectKey p)))"
proof (intro conjI impI)
  assume h: "b \<noteq> [] \<and> list_all bucketChar b \<and> list_all keyChar k"
  then show "parseS3Url (''s3://'' @ b @ ''/'' @ k) = Some \<lparr>locBucketName = b, objectKey = k\<rparr>"
    using matchS3Url_bucket_key [of b k] by (simp add: parseS3Url_def startsWith_def)
  from h show "parseS3Url (''s3://'' @ b) = Some \<lparr>locBucketName = b, objectKey = []\<rparr>"
    using matchS3Url_bucket_only [of b] by (simp add: parseS3Url_def startsWith_def)
next
  show "parseS3Url url = None \<longleftrightarrow>
      \<not> (\<exists>b k. b \<noteq> [] \<and> list_all bucketChar b \<and> list_all keyChar k \<and>
              (url = ''s3://'' @ b \<or> url = ''s3://'' @ b @ ''/'' @ k))"
    unfolding parseS3Url_None_iff by (rule matchS3Url_None_iff)
next
  show "getHttpUrl url = None \<longleftrightarrow> parseS3Url url = None"
    by (simp add: getHttpUrl_def split: option.splits)
next
  assume "parseS3Url url = Some p"
  then show "getHttpUrl url =
        Some (''https://'' @ locBucketName p @ ''.s3.amazonaws.com'' @
              (if objectKey p = [] then [] else ''/'' @ objectKey p))"
    by (simp add: getHttpUrl_def)
qed

lemma bucketChar_bucket: "list_all bucketChar ''bucket''"
  by (simp add: bucketChar_def bucketChars_def)

lemma keyChar_key: "list_all keyChar ''path/to/folder''"
  by (simp add: keyChar_def)

theorem parseS3Url_getHttpUrl_spec_witness:
  "parseS3Url ''s3://bucket/path/to/folder'' = Some \<lparr>locBucketName = ''bucket'', objectKey = ''path/to/folder''\<rparr> \<and>
   parseS3Url ''s3://bucket'' = Some \<lparr>locBucketName = ''bucket'', objectKey = []\<rparr> \<and>
   getHttpUrl ''s3://bucket/path/to/folder'' = Some ''https://bucket.s3.amazonaws.com/path/to/folder''"
  using parseS3Url_getHttpUrl_spec [of "''bucket''" "''path/to/folder''" "''s3://bucket/path/to/folder''"
      "\<lparr>locBucketName = ''bucket'', objectKey = ''path/to/folder''\<rparr>"]
    bucketChar_bucket keyChar_key
  by simp

text \<open>
  The claim as first stated, for every string of the form \<open>s3://<bucket>/<key>\<close>, fails where
  the key holds a character the regular expression excludes: \<open>s3://bucket/a$b\<close> has the
  bucket name \<open>bucket\<close> and the key \<open>a$b\<close>, and both functions return \<open>undefined\<close> on it.
\<close>

theorem parseS3Url_counterexample:
  "list_all bucketChar ''bucket'' \<and> parseS3Url ''s3://bucket/a$b'' = None \<and> getHttpUrl ''s3://bucket/a$b'' = None"
  by (simp add: getHttpUrl_def parseS3Url_def matchS3Url_def startsWith_def bucketChar_def bucketChars_def keyChar_def)

section \<open>Properties of the generator\<close>

subsection \<open>The catalog of the scenario\<close>

lemma showNat_1 [simp]: "showNat 1 = ''1''" "showNat (Suc 0) = ''1''"
  by (simp_all add: showNat.simps)

lemma lookup_GEN:
  "lookupBook scenarioCatalog ''GEN'' =
     Some \<lparr>canonicalId = ''GEN'', bookCommonName = ''Genesis'', bookOrder = 1, aliases = []\<rparr>"
  by (simp add: lookupBook_def scenarioCatalog_def)

lemma lookup_EXO:
  "lookupBook scenarioCatalog ''EXO'' =
     Some \<lparr>canonicalId = ''EXO'', bookCommonName = ''Exodus'', bookOrder = 2, aliases = []\<rparr>"
  by (simp add: lookupBook_def scenarioCatalog_def toLowerChar_def)

subsection \<open>The links between chapters\<close>

lemma resolveBooks_set:
  "resolveBooks catalog books = Inr resolved \<Longrightarrow>
   set resolved = {(b, pb). pb \<in> set books \<and> lookupBook catalog (bookIdentifier pb) = Some b}"
proof (induction books arbitrary: resolved)
  case Nil
  then show ?case by simp
next
  case (Cons pb pbs)
  from Cons.prems obtain b rest where b: "lookupBook catalog (bookIdentifier pb) = Some b"
    and rest: "resolveBooks catalog pbs = Inr rest" and r: "resolved = (b, pb) # rest"
    by (auto split: option.splits sum.splits)
  from Cons.IH [OF rest] b r show ?case by auto
qed

lemma distinctTranslations_ids:
  "translationId ` set (distinctTranslations seen books) =
   (translationId \<circ> translation) ` set books - set seen"
  by (induction seen books rule: distinctTranslations.induct) auto

lemma booksOf_set:
  "set (booksOf tid resolved) = {(b, pb). (b, pb) \<in> set resolved \<and> translationId (translation pb) = tid}"
  by (auto simp: booksOf_def)

lemma length_chapterFiles: "length (chapterFiles u t b book cs) = length cs"
  by (induction cs) simp_all

lemma chapterFiles_nth:
  "i < length cs \<Longrightarrow>
   chapterFiles u t b book cs ! i =
     \<lparr>outPath = chapterPath (translationId t) (bookSegment u b) (number (cs ! i)),
      outContent =
        ChapterDoc t book
          (if Suc i < length cs
           then Some (chapterPath (translationId t) (bookSegment u b) (number (cs ! Suc i)))
           else None)
          (cs ! i),
      mergable = False\<rparr>"
proof (induction cs arbitrary: i)
  case Nil
  then show ?case by simp
next
  case (Cons c cs)
  show ?case
  proof (cases i)
    case 0
    then show ?thesis by (cases cs) simp_all
  next
    case (Suc j)
    with Cons.prems have "j < length cs" by simp
    from Cons.IH [OF this] Suc show ?thesis by simp
  qed
qed

lemma translationId_availableTranslation [simp]:
  "translationId (availableTranslation t) = translationId t"
  by (simp add: availableTranslation_def InputTranslationMetadata.extend_def)

lemma bookFiles_nth:
  assumes "i < length (chapters pb)" and "translationId t = translationId (translation pb)"
  shows "bookFiles u (availableTranslation t) (b, pb) ! i =
     \<lparr>outPath = chapterPath (translationId (translation pb)) (bookSegment u b) (number (chapters pb ! i)),
      outContent =
        ChapterDoc (availableTranslation t) (translationBook u (translationId (translation pb)) (b, pb))
          (nextInBook u b pb i) (chapters pb ! i),
      mergable = False\<rparr>"
  using assms by (simp add: bookFiles_def chapterFiles_nth nextInBook_def)

lemma length_bookFiles: "length (bookFiles u t (b, pb)) = length (chapters pb)"
  by (simp add: bookFiles_def length_chapterFiles)

lemma generate_files:
  assumes "generate catalog u books = Inr files"
  obtains resolved where "resolveBooks catalog books = Inr resolved"
    and "files =
      \<lparr>outPath = availableTranslationsPath,
       outContent = AvailableTranslationsDoc (map availableTranslation (distinctTranslations [] books)),
       mergable = True\<rparr>
      # concat (map (translationFiles u resolved) (distinctTranslations [] books))"
  using assms by (auto simp: generate_def Let_def split: sum.splits)

lemma chapterDoc_in_translationFiles:
  "f \<in> set (translationFiles u resolved t) \<and> (\<exists>e book link c. outContent f = ChapterDoc e book link c)
   \<longleftrightarrow> (\<exists>bp \<in> set (booksOf (translationId t) resolved). f \<in> set (bookFiles u (availableTranslation t) bp))"
proof -
  have "\<And>bp g. g \<in> set (bookFiles u (availableTranslation t) bp) \<Longrightarrow>
          \<exists>e book link c. outContent g = ChapterDoc e book link c"
  proof -
    fix bp g
    assume g: "g \<in> set (bookFiles u (availableTranslation t) bp)"
    obtain b pb where bp: "bp = (b, pb)" by (cases bp)
    from g obtain i where i: "i < length (bookFiles u (availableTranslation t) bp)"
      and gi: "g = bookFiles u (availableTranslation t) bp ! i"
      by (auto simp: in_set_conv_nth)
    from i bp have "i < length (chapters pb)" by (simp add: length_bookFiles)
    then show "\<exists>e book link c. outContent g = ChapterDoc e book link c"
      using gi bp by (simp add: bookFiles_def chapterFiles_nth)
  qed
  then show ?thesis
    by (auto simp: translationFiles_def Let_def)
qed

text \<open>
  Claim C2, as amended. Whenever \<open>generate\<close> returns documents, every chapter of every
  parsed book has its document, whose \<open>nextChapterLink\<close> is the path of the chapter that
  follows it in the same book, and \<open>null\<close> when it is the last chapter of its book; and
  every chapter document of the output is such a document. So the link of the last chapter
  of a book is \<open>null\<close> for every book, not only for the canonically last one.
\<close>

theorem nextChapterLink_within_book:
  assumes "generate catalog useCommonName books = Inr files"
  shows "(\<forall>pb \<in> set books. \<forall>i < length (chapters pb).
            \<exists>b f t book.
              lookupBook catalog (bookIdentifier pb) = Some b \<and> f \<in> set files \<and>
              outPath f = chapterPath (translationId (translation pb)) (bookSegment useCommonName b)
                            (number (chapters pb ! i)) \<and>
              outContent f = ChapterDoc t book (nextInBook useCommonName b pb i) (chapters pb ! i)) \<and>
         (\<forall>f \<in> set files. \<forall>t book link c.
            outContent f = ChapterDoc t book link c \<longrightarrow>
            (\<exists>pb \<in> set books. \<exists>b. \<exists>i < length (chapters pb).
               lookupBook catalog (bookIdentifier pb) = Some b \<and>
               outPath f = chapterPath (translationId (translation pb)) (bookSegment useCommonName b)
                             (number (chapters pb ! i)) \<and>
               c = chapters pb ! i \<and>
               link = nextInBook useCommonName b pb i))"
proof -
  from assms obtain resolved where res: "resolveBooks catalog books = Inr resolved"
    and files: "files =
      \<lparr>outPath = availableTranslationsPath,
       outContent = AvailableTranslationsDoc (map availableTranslation (distinctTranslations [] books)),
       mergable = True\<rparr>
      # concat (map (translationFiles useCommonName resolved) (distinctTranslations [] books))"
    by (rule generate_files)
  note rset = resolveBooks_set [OF res]
  have ids: "translationId ` set (distinctTranslations [] books) = (translationId \<circ> translation) ` set books"
    using distinctTranslations_ids [of "[]" books] by simp
  have forward: "\<exists>b f t book.
              lookupBook catalog (bookIdentifier pb) = Some b \<and> f \<in> set files \<and>
              outPath f = chapterPath (translationId (translation pb)) (bookSegment useCommonName b)
                            (number (chapters pb ! i)) \<and>
              outContent f = ChapterDoc t book (nextInBook useCommonName b pb i) (chapters pb ! i)"
    if pb: "pb \<in> set books" and i: "i < length (chapters pb)" for pb i
  proof -
    from res pb obtain b where b: "lookupBook catalog (bookIdentifier pb) = Some b"
      and inres: "(b, pb) \<in> set resolved"
    proof -
      have "\<exists>b. lookupBook catalog (bookIdentifier pb) = Some b"
        using res pb
      proof (induction books arbitrary: resolved)
        case Nil
        then show ?case by simp
      next
        case (Cons x xs)
        then show ?case by (auto split: option.splits sum.splits)
      qed
      then obtain b where "lookupBook catalog (bookIdentifier pb) = Some b" by blast
      moreover from this pb rset have "(b, pb) \<in> set resolved" by simp
      ultimately show ?thesis using that by blast
    qed
    from pb ids obtain t where t: "t \<in> set (distinctTranslations [] books)"
      and tid: "translationId t = translationId (translation pb)"
      by (metis (no_types, lifting) comp_apply image_iff)
    from inres tid have inbooks: "(b, pb) \<in> set (booksOf (translationId t) resolved)"
      by (simp add: booksOf_set)
    let ?f = "bookFiles useCommonName (availableTranslation t) (b, pb) ! i"
    have "?f \<in> set (bookFiles useCommonName (availableTranslation t) (b, pb))"
      using i by (simp add: length_bookFiles)
    with inbooks have "?f \<in> set (translationFiles useCommonName resolved t)"
      using chapterDoc_in_translationFiles [of ?f useCommonName resolved t] by blast
    with t have "?f \<in> set files"
      unfolding files by auto
    moreover note bookFiles_nth [OF i tid, of useCommonName b]
    ultimately show ?thesis using b
      by (metis (no_types, lifting) OutputFile.select_convs(1,2))
  qed
  have backward: "\<exists>pb \<in> set books. \<exists>b. \<exists>i < length (chapters pb).
               lookupBook catalog (bookIdentifier pb) = Some b \<and>
               outPath f = chapterPath (translationId (translation pb)) (bookSegment useCommonName b)
                             (number (chapters pb ! i)) \<and>
               c = chapters pb ! i \<and>
               link = nextInBook useCommonName b pb i"
    if f: "f \<in> set files" and doc: "outContent f = ChapterDoc t book link c" for f t book link c
  proof -
    from f doc obtain tr where tr: "tr \<in> set (distinctTranslations [] books)"
      and ftr: "f \<in> set (translationFiles useCommonName resolved tr)"
      unfolding files by auto
    with doc obtain bp where bp: "bp \<in> set (booksOf (translationId tr) resolved)"
      and fbp: "f \<in> set (bookFiles useCommonName (availableTranslation tr) bp)"
      using chapterDoc_in_translationFiles [of f useCommonName resolved tr] by blast
    obtain b pb where bpeq: "bp = (b, pb)" by (cases bp)
    from bp bpeq have inres: "(b, pb) \<in> set resolved"
      and tid: "translationId tr = translationId (translation pb)"
      by (simp_all add: booksOf_set)
    from inres rset have pb: "pb \<in> set books" and b: "lookupBook catalog (bookIdentifier pb) = Some b"
      by simp_all
    from fbp bpeq obtain i where i: "i < length (chapters pb)"
      and fi: "f = bookFiles useCommonName (availableTranslation tr) (b, pb) ! i"
      by (auto simp: in_set_conv_nth length_bookFiles)
    from fi bookFiles_nth [OF i tid, of useCommonName b] doc
    have "outPath f = chapterPath (translationId (translation pb)) (bookSegment useCommonName b)
                             (number (chapters pb ! i))"
      and "c = chapters pb ! i" and "link = nextInBook useCommonName b pb i"
      by simp_all
    with pb b i show ?thesis by blast
  qed
  from forward backward show ?thesis by blast
qed

lemma scenario_nextChapterLinks:
  "map_sum id nextChapterLinks (generate scenarioCatalog True inputFiles) =
     Inr [(''/bible/bsb/Genesis/1.json'', None), (''/bible/bsb/Exodus/1.json'', None)]"
proof -
  have r: "resolveBooks scenarioCatalog inputFiles =
     Inr [(\<lparr>canonicalId = ''GEN'', bookCommonName = ''Genesis'', bookOrder = 1, aliases = []\<rparr>,
           \<lparr>translation = translation1, bookIdentifier = ''GEN'', chapters = [genesisChapter1]\<rparr>),
          (\<lparr>canonicalId = ''EXO'', bookCommonName = ''Exodus'', bookOrder = 2, aliases = []\<rparr>,
           \<lparr>translation = translation1, bookIdentifier = ''EXO'', chapters = [exodusChapter1]\<rparr>)]"
    by (simp add: inputFiles_def lookup_GEN lookup_EXO)
  have d: "distinctTranslations [] inputFiles = [translation1]"
    by (simp add: inputFiles_def)
  have tid: "translationId translation1 = ''bsb''" by (simp add: translation1_def)
  have n: "number genesisChapter1 = 1" "number exodusChapter1 = 1"
    by (simp_all add: genesisChapter1_def exodusChapter1_def)
  show ?thesis
    by (simp add: generate_def r d translationFiles_def Let_def booksOf_def tid bookFiles_def
        chapterPath_def bookSegment_def n)
qed

theorem nextChapterLink_within_book_witness:
  "\<exists>files b f t book.
     generate scenarioCatalog True
       [\<lparr>translation = translation1, bookIdentifier = ''GEN'',
         chapters = [genesisChapter1, genesisChapter1\<lparr>number := 2\<rparr>]\<rparr>] = Inr files \<and>
     lookupBook scenarioCatalog ''GEN'' = Some b \<and>
     f \<in> set files \<and>
     outPath f = ''/bible/bsb/Genesis/1.json'' \<and>
     outContent f = ChapterDoc t book (Some ''/bible/bsb/Genesis/2.json'') genesisChapter1"
proof -
  let ?pb = "\<lparr>translation = translation1, bookIdentifier = ''GEN'',
         chapters = [genesisChapter1, genesisChapter1\<lparr>number := 2\<rparr>]\<rparr>"
  let ?b = "\<lparr>canonicalId = ''GEN'', bookCommonName = ''Genesis'', bookOrder = 1, aliases = []\<rparr>"
  have r: "resolveBooks scenarioCatalog [?pb] = Inr [(?b, ?pb)]"
    by (simp add: lookup_GEN)
  then obtain files where g: "generate scenarioCatalog True [?pb] = Inr files"
    by (simp add: generate_def)
  have pb: "?pb \<in> set [?pb]" by simp
  have i: "0 < length (chapters ?pb)" by simp
  from nextChapterLink_within_book [OF g] pb i
  obtain b f t book where b: "lookupBook scenarioCatalog (bookIdentifier ?pb) = Some b"
    and f: "f \<in> set files"
    and p: "outPath f = chapterPath (translationId (translation ?pb)) (bookSegment True b)
                            (number (chapters ?pb ! 0))"
    and c: "outContent f = ChapterDoc t book (nextInBook True b ?pb 0) (chapters ?pb ! 0)"
    by blast
  from b have beq: "b = ?b" by (simp add: lookup_GEN)
  have two: "showNat 2 = ''2''" by (simp add: showNat.simps)
  have tid: "translationId translation1 = ''bsb''" by (simp add: translation1_def)
  have n1: "number genesisChapter1 = 1" by (simp add: genesisChapter1_def)
  from p have p': "outPath f = ''/bible/bsb/Genesis/1.json''"
    by (simp add: beq chapterPath_def bookSegment_def tid n1)
  from c have c': "outContent f = ChapterDoc t book (Some ''/bible/bsb/Genesis/2.json'') genesisChapter1"
    by (simp add: beq nextInBook_def chapterPath_def bookSegment_def tid two)
  from g b f p' c' show ?thesis by auto
qed

text \<open>
  The claim as first stated asks that the last chapter of a book that is not the
  canonically last one link to chapter 1 of the next book. In the scenario of the test
  Genesis has one chapter and Exodus follows it, and the \<open>nextChapterLink\<close> of
  \<open>/bible/bsb/Genesis/1.json\<close> is \<open>null\<close>, in the output of \<open>generate\<close> as in the tree the
  test expects, and not \<open>/bible/bsb/Exodus/1.json\<close>, the path of chapter 1 of Exodus.
\<close>

theorem nextChapterLink_counterexample:
  "map_sum id nextChapterLinks (generate scenarioCatalog True inputFiles) =
     Inr [(''/bible/bsb/Genesis/1.json'', None), (''/bible/bsb/Exodus/1.json'', None)] \<and>
   map_of expectedTree ''/bible/bsb/Genesis/1.json'' =
     Some (ChapterDoc expectedTranslation expectedGenesis None genesisChapter1) \<and>
   chapterPath ''bsb'' ''Exodus'' 1 = ''/bible/bsb/Exodus/1.json''"
proof (intro conjI)
  show "map_sum id nextChapterLinks (generate scenarioCatalog True inputFiles) =
     Inr [(''/bible/bsb/Genesis/1.json'', None), (''/bible/bsb/Exodus/1.json'', None)]"
    by (rule scenario_nextChapterLinks)
  show "map_of expectedTree ''/bible/bsb/Genesis/1.json'' =
     Some (ChapterDoc expectedTranslation expectedGenesis None genesisChapter1)"
    by (simp add: expectedTree_def genesisChapter1_def)
  show "chapterPath ''bsb'' ''Exodus'' 1 = ''/bible/bsb/Exodus/1.json''"
    by (simp add: chapterPath_def)
qed

end
